theory Spec2Isabelle
  imports Main "HOL-Library.Word" "HOL-Library.Char_ord" "HOL-Library.List_Lexorder"
    "HOL-Library.Option_ord" "HOL-Library.Product_Lexorder"
begin

section \<open>LOOT: the query handler of the user interface (src/gui/handler.cpp)\<close>

text \<open>
  The development embeds two members of \<^verbatim>\<open>loot::Handler\<close>: the
  \<^verbatim>\<open>getConflictingPlugins\<close> branch of \<^verbatim>\<open>Handler::OnQuery\<close> (lines 184-208) and
  \<^verbatim>\<open>Handler::GetGameData\<close> (lines 349-536). Both work on the metadata classes of
  LOOT's backend (\<^verbatim>\<open>Plugin\<close>, \<^verbatim>\<open>Message\<close>, \<^verbatim>\<open>Tag\<close>, \<^verbatim>\<open>PluginDirtyInfo\<close>,
  \<^verbatim>\<open>MetadataList\<close>, \<^verbatim>\<open>Game\<close>), whose declarations and bodies are not among the
  sources at hand. Every definition that stands for such a backend member is marked
  ``Modelled from the spec'' and follows the wording of the specification; everything
  else is a transcription of handler.cpp, with the line numbers given.
\<close>

subsection \<open>Metadata values\<close>

text \<open>
  Modelled from the spec: the severities of \<^verbatim>\<open>Message\<close>, whose declaration is missing.
  The handler constructs messages with \<^verbatim>\<open>Message::warn\<close> and \<^verbatim>\<open>Message::error\<close>;
  \<open>say\<close> stands for the remaining, informational severity.
\<close>

datatype message_type = say | warn | error

text \<open>
  Modelled from the spec: the class \<^verbatim>\<open>Message\<close> is missing. A message is a severity and
  a text (section 3), and may carry a conditional expression (section 4.2); \<open>None\<close> is
  an unconditioned message.
\<close>

record message =
  msg_type :: message_type
  msg_content :: string
  msg_condition :: "string option"

text \<open>
  Modelled from the spec: the constructor \<^verbatim>\<open>Message(type, text)\<close>, used at lines 462,
  496 and 529, is missing. It builds a message of that severity and text with no condition.
\<close>

definition Message :: "message_type \<Rightarrow> string \<Rightarrow> message" where
  "Message t s = \<lparr>msg_type = t, msg_content = s, msg_condition = None\<rparr>"

text \<open>
  Modelled from the spec: the class \<^verbatim>\<open>Tag\<close> is missing. A tag is a name with an
  add/remove flag, possibly conditioned.
\<close>

record Tag =
  tag_name :: string
  tag_addition :: bool
  tag_condition :: "string option"

text \<open>
  Modelled from the spec: the class \<^verbatim>\<open>PluginDirtyInfo\<close> is missing. A dirtiness record
  is \<open>{cleaningTool, itmCount, udrCount, deletedNavmeshCount}\<close> with unsigned counts. The field names are the accessors the
  handler calls at lines 475-494. The counts are only compared with zero and printed, so
  they are natural numbers here.
\<close>

record PluginDirtyInfo =
  ITMs :: nat
  UDRs :: nat
  DeletedNavmeshes :: nat
  CleaningUtility :: string

type_synonym FormID = "32 word"

text \<open>
  Modelled from the spec: the class \<^verbatim>\<open>Plugin\<close> is missing. It is the per-plugin
  metadata record of section 3, with the accessor names the handler uses. The priority is
  a host-width signed integer (section 4.1): a 32-bit word read with \<open>sint\<close>. A
  \<^verbatim>\<open>std::set\<close> member is the list of the set's elements in the order in which the set
  is traversed; the identifier set is only tested for emptiness and intersection, so it is
  a set.
\<close>

record Plugin =
  Name :: string
  Priority :: "32 word"
  Enabled :: bool
  LoadAfter :: "string list"
  Reqs :: "string list"
  Incs :: "string list"
  Messages :: "message list"
  Tags :: "Tag list"
  DirtyInfo :: "PluginDirtyInfo list"
  FormIDs :: "FormID set"
  Crc :: "32 word"
  Version :: string

text \<open>
  Modelled from the spec: the constructor \<^verbatim>\<open>Plugin(name)\<close> (used at line 273) is
  missing. A freshly constructed record has every field but the name at its default.
\<close>

definition Plugin_of_name :: "string \<Rightarrow> Plugin" where
  "Plugin_of_name n =
     \<lparr>Name = n, Priority = 0, Enabled = True, LoadAfter = [], Reqs = [], Incs = [],
      Messages = [], Tags = [], DirtyInfo = [], FormIDs = {}, Crc = 0, Version = []\<rparr>"

text \<open>
  Modelled from the spec: \<^verbatim>\<open>Plugin::HasNameOnly\<close> is missing. It is true iff no field
  other than the name is set.
\<close>

definition HasNameOnly :: "Plugin \<Rightarrow> bool" where
  "HasNameOnly p =
     (Priority p = 0 \<and> Enabled p \<and> LoadAfter p = [] \<and> Reqs p = [] \<and> Incs p = [] \<and>
      Messages p = [] \<and> Tags p = [] \<and> DirtyInfo p = [])"

text \<open>
  Modelled from the spec: the orderings of the \<^verbatim>\<open>std::set\<close> members are missing. A
  \<^verbatim>\<open>std::set\<close> is traversed in the order of its elements, so the list that stands for
  one is sorted: names in the lexicographic order of their characters, tags and dirtiness
  records in the lexicographic order of their fields. \<open>set_insert\<close> puts an element
  that the set does not hold at its place in that order, and \<open>set_merge\<close> is the
  traversal of the union of two sets: the elements of the receiver put at their places
  among those of the other set. For sorted lists without repetition the result is the
  sorted list without repetition of the union (lemmas \<open>set_merge_set\<close>,
  \<open>set_merge_sorted\<close> and \<open>set_merge_distinct\<close>).
\<close>

definition name_key :: "string \<Rightarrow> string" where
  "name_key n = n"

definition Tag_key :: "Tag \<Rightarrow> string \<times> bool \<times> string option" where
  "Tag_key t = (tag_name t, tag_addition t, tag_condition t)"

definition PluginDirtyInfo_key :: "PluginDirtyInfo \<Rightarrow> string \<times> nat \<times> nat \<times> nat" where
  "PluginDirtyInfo_key d = (CleaningUtility d, ITMs d, UDRs d, DeletedNavmeshes d)"

definition set_insert :: "('a \<Rightarrow> 'k::linorder) \<Rightarrow> 'a \<Rightarrow> 'a list \<Rightarrow> 'a list" where
  "set_insert key x xs = (if x \<in> set xs then xs else insort_key key x xs)"

definition set_merge :: "('a \<Rightarrow> 'k::linorder) \<Rightarrow> 'a list \<Rightarrow> 'a list \<Rightarrow> 'a list" where
  "set_merge key receiver other = fold (set_insert key) receiver other"

text \<open>
  Modelled from the spec: \<^verbatim>\<open>Plugin::MergeMetadata\<close> is missing. A scalar of \<open>other\<close>
  overwrites the one of \<open>base\<close> only when it is not the default (priority 0, enabled);
  set fields are unioned; message sequences are concatenated in order. The name and the
  properties read from the plugin file are those of \<open>base\<close>.
\<close>

definition MergeMetadata :: "Plugin \<Rightarrow> Plugin \<Rightarrow> Plugin" where
  "MergeMetadata base other =
     base\<lparr>Priority := (if Priority other = 0 then Priority base else Priority other),
          Enabled := (if Enabled other then Enabled base else False),
          LoadAfter := set_merge name_key (LoadAfter base) (LoadAfter other),
          Reqs := set_merge name_key (Reqs base) (Reqs other),
          Incs := set_merge name_key (Incs base) (Incs other),
          Messages := Messages base @ Messages other,
          Tags := set_merge Tag_key (Tags base) (Tags other),
          DirtyInfo := set_merge PluginDirtyInfo_key (DirtyInfo base) (DirtyInfo other)\<rparr>"

subsection \<open>The dirtiness formatter (GetGameData, lines 473-498)\<close>

text \<open>
  \<^verbatim>\<open>boost::format\<close> prints an unsigned count in decimal. \<^verbatim>\<open>boost::locale::translate\<close>
  is taken at the source language, where it returns its argument.
\<close>

definition digit_char :: "nat \<Rightarrow> char" where
  "digit_char d = ''0123456789'' ! d"

fun to_string :: "nat \<Rightarrow> string" where
  "to_string n =
     (if n < 10 then [digit_char n] else to_string (n div 10) @ [digit_char (n mod 10)])"

declare to_string.simps [simp del]

text \<open>
  The body of the loop over \<^verbatim>\<open>dirtyInfo\<close>, lines 474-494: the chain of tests in the
  order of the source, each format string with its arguments substituted. When no test
  holds the format object stays empty and so does its string; with unsigned counts one
  test always holds.
\<close>

definition dirty_text :: "PluginDirtyInfo \<Rightarrow> string" where
  "dirty_text element =
     (if ITMs element > 0 \<and> UDRs element > 0 \<and> DeletedNavmeshes element > 0 then
        ''Contains '' @ to_string (ITMs element) @ '' ITM records, '' @
        to_string (UDRs element) @ '' UDR records and '' @
        to_string (DeletedNavmeshes element) @ '' deleted navmeshes. Clean with '' @
        CleaningUtility element @ ''.''
      else if ITMs element = 0 \<and> UDRs element = 0 \<and> DeletedNavmeshes element = 0 then
        ''Clean with '' @ CleaningUtility element @ ''.''
      else if ITMs element = 0 \<and> UDRs element > 0 \<and> DeletedNavmeshes element > 0 then
        ''Contains '' @ to_string (UDRs element) @ '' UDR records and '' @
        to_string (DeletedNavmeshes element) @ '' deleted navmeshes. Clean with '' @
        CleaningUtility element @ ''.''
      else if ITMs element = 0 \<and> UDRs element = 0 \<and> DeletedNavmeshes element > 0 then
        ''Contains '' @ to_string (DeletedNavmeshes element) @
        '' deleted navmeshes. Clean with '' @ CleaningUtility element @ ''.''
      else if ITMs element = 0 \<and> UDRs element > 0 \<and> DeletedNavmeshes element = 0 then
        ''Contains '' @ to_string (UDRs element) @ '' UDR records. Clean with '' @
        CleaningUtility element @ ''.''
      else if ITMs element > 0 \<and> UDRs element = 0 \<and> DeletedNavmeshes element > 0 then
        ''Contains '' @ to_string (ITMs element) @ '' ITM records and '' @
        to_string (DeletedNavmeshes element) @ '' deleted navmeshes. Clean with '' @
        CleaningUtility element @ ''.''
      else if ITMs element > 0 \<and> UDRs element = 0 \<and> DeletedNavmeshes element = 0 then
        ''Contains '' @ to_string (ITMs element) @ '' ITM records. Clean with '' @
        CleaningUtility element @ ''.''
      else if ITMs element > 0 \<and> UDRs element > 0 \<and> DeletedNavmeshes element = 0 then
        ''Contains '' @ to_string (ITMs element) @ '' ITM records and '' @
        to_string (UDRs element) @ '' UDR records. Clean with '' @
        CleaningUtility element @ ''.''
      else [])"

text \<open>
  The table of section 4.4 of the specification, written from its words: one template for
  each pattern of (itmCount > 0, udrCount > 0, deletedNavmeshCount > 0). It is the
  reference the formatter of the source is compared with.
\<close>

fun spec_template :: "bool \<Rightarrow> bool \<Rightarrow> bool \<Rightarrow> string \<Rightarrow> string \<Rightarrow> string \<Rightarrow> string \<Rightarrow> string" where
  "spec_template False False False itm udr nav tool =
     ''Clean with '' @ tool @ ''.''"
| "spec_template True False False itm udr nav tool =
     ''Contains '' @ itm @ '' ITM records. Clean with '' @ tool @ ''.''"
| "spec_template False True False itm udr nav tool =
     ''Contains '' @ udr @ '' UDR records. Clean with '' @ tool @ ''.''"
| "spec_template False False True itm udr nav tool =
     ''Contains '' @ nav @ '' deleted navmeshes. Clean with '' @ tool @ ''.''"
| "spec_template True True False itm udr nav tool =
     ''Contains '' @ itm @ '' ITM records and '' @ udr @ '' UDR records. Clean with '' @
     tool @ ''.''"
| "spec_template True False True itm udr nav tool =
     ''Contains '' @ itm @ '' ITM records and '' @ nav @
     '' deleted navmeshes. Clean with '' @ tool @ ''.''"
| "spec_template False True True itm udr nav tool =
     ''Contains '' @ udr @ '' UDR records and '' @ nav @
     '' deleted navmeshes. Clean with '' @ tool @ ''.''"
| "spec_template True True True itm udr nav tool =
     ''Contains '' @ itm @ '' ITM records, '' @ udr @ '' UDR records and '' @ nav @
     '' deleted navmeshes. Clean with '' @ tool @ ''.''"

definition spec_dirty_text :: "PluginDirtyInfo \<Rightarrow> string" where
  "spec_dirty_text d =
     spec_template (ITMs d > 0) (UDRs d > 0) (DeletedNavmeshes d > 0)
       (to_string (ITMs d)) (to_string (UDRs d)) (to_string (DeletedNavmeshes d))
       (CleaningUtility d)"

subsection \<open>Collections and collaborators\<close>

text \<open>
  Modelled from the spec: the class \<^verbatim>\<open>MetadataList\<close> is missing. A metadata list
  (masterlist or userlist) holds plugin records and, for the masterlist, the global
  messages. The handler reads and writes
  \<^verbatim>\<open>masterlist.messages\<close> (lines 462, 519-533) and \<^verbatim>\<open>userlist.plugins\<close> (line 273).
\<close>

record MetadataList =
  ml_plugins :: "Plugin list"
  ml_messages :: "message list"

text \<open>
  Modelled from the spec: the class \<^verbatim>\<open>Game\<close> is missing. The record is the state of
  the current game that the handler touches. \<open>plugins\<close> is the plugin
  registry, a map from names to plugins: an association list in the map's iteration
  order, looked up by key with \<open>map_of\<close>. \<open>loadOrder\<close> is what
  \<^verbatim>\<open>GetLoadOrder\<close> delivers.
\<close>

record Game =
  FolderName :: string
  plugins :: "(string \<times> Plugin) list"
  masterlist :: MetadataList
  userlist :: MetadataList
  loadOrder :: "string list"

text \<open>
  The collaborators the handler consumes as black boxes. \<open>ConditionEvaluator\<close> is the
  evaluator of the condition language against the installation: \<open>Inr b\<close> is the truth
  value, \<open>Inl what\<close> is an exception with that detail. \<open>FormIDsOnDisk\<close> is what a full
  load reads from a plugin file. The two texts are those of the messages of the install
  check, which the specification does not spell out.
\<close>

record collaborators =
  ConditionEvaluator :: "string \<Rightarrow> string + bool"
  IsActive :: "string \<Rightarrow> bool"
  LoadsBSA :: "Plugin \<Rightarrow> bool"
  FormIDsOnDisk :: "string \<Rightarrow> FormID set"
  MissingRequirementText :: "string \<Rightarrow> string"
  PresentIncompatibilityText :: "string \<Rightarrow> string"

text \<open>
  Modelled from the spec: the comparison of plugin names is missing. Names are compared
  without regard to the case of the letters A to Z.
\<close>

definition to_lower_char :: "char \<Rightarrow> char" where
  "to_lower_char ch =
     (let n = (of_char ch :: nat) in if 65 \<le> n \<and> n \<le> 90 then char_of (n + 32) else ch)"

definition iequals :: "string \<Rightarrow> string \<Rightarrow> bool" where
  "iequals a b = (map to_lower_char a = map to_lower_char b)"

text \<open>
  Modelled from the spec: \<^verbatim>\<open>MetadataList::FindPlugin\<close> is missing. It is a
  case-insensitive lookup that never fails and returns a name-only record when the name is
  absent.
\<close>

definition FindPlugin :: "MetadataList \<Rightarrow> string \<Rightarrow> Plugin" where
  "FindPlugin ml n =
     (case find (\<lambda>p. iequals (Name p) n) (ml_plugins ml) of
        Some p \<Rightarrow> p
      | None \<Rightarrow> Plugin_of_name n)"

text \<open>
  Modelled from the spec: \<^verbatim>\<open>Message::EvalCondition\<close> and its counterpart for tags are
  missing. The condition of a message or of a tag is handed to the evaluator; an
  unconditioned entry counts as true without consulting it.
\<close>

definition Message_EvalCondition :: "(string \<Rightarrow> string + bool) \<Rightarrow> message \<Rightarrow> string + bool" where
  "Message_EvalCondition ev m = (case msg_condition m of None \<Rightarrow> Inr True | Some cnd \<Rightarrow> ev cnd)"

definition Tag_EvalCondition :: "(string \<Rightarrow> string + bool) \<Rightarrow> Tag \<Rightarrow> string + bool" where
  "Tag_EvalCondition ev t = (case tag_condition t of None \<Rightarrow> Inr True | Some cnd \<Rightarrow> ev cnd)"

text \<open>
  The erase loop of lines 519-525:
  \<^verbatim>\<open>while (it != end) { if (!it->EvalCondition(..)) it = erase(it); else ++it; }\<close>.
  The container is changed in place, so when \<^verbatim>\<open>EvalCondition\<close> throws, the entries
  erased so far stay erased and the entry at the iterator and all behind it stay in the
  container. The result is the container and the exception's detail, if one was thrown.
\<close>

fun erase_false :: "('a \<Rightarrow> string + bool) \<Rightarrow> 'a list \<Rightarrow> 'a list \<times> string option" where
  "erase_false evalc [] = ([], None)"
| "erase_false evalc (x # xs) =
     (case evalc x of
        Inl what \<Rightarrow> (x # xs, Some what)
      | Inr b \<Rightarrow>
          if \<not> b then erase_false evalc xs
          else (case erase_false evalc xs of (ys, thrown) \<Rightarrow> (x # ys, thrown)))"

text \<open>
  Modelled from the spec: \<^verbatim>\<open>Plugin::EvalAllConditions\<close> is missing. It invokes the
  evaluator for the conditions
  of the messages and then of the tags, removes the entries whose condition is false and
  leaves unconditioned entries alone. An evaluation failure leaves the method as an
  exception; the record keeps what had been done until then. The result is the record
  after the call and the exception's detail, if one was thrown. The dirtiness records of
  the specification's data model carry no condition and are left as they are.
\<close>

definition EvalAllConditions :: "(string \<Rightarrow> string + bool) \<Rightarrow> Plugin \<Rightarrow> Plugin \<times> string option" where
  "EvalAllConditions ev p =
     (case erase_false (Message_EvalCondition ev) (Messages p) of
        (ms, Some what) \<Rightarrow> (p\<lparr>Messages := ms\<rparr>, Some what)
      | (ms, None) \<Rightarrow>
          (case erase_false (Tag_EvalCondition ev) (Tags p) of
             (ts, thrown) \<Rightarrow> (p\<lparr>Messages := ms, Tags := ts\<rparr>, thrown)))"

text \<open>
  Modelled from the spec: \<^verbatim>\<open>Plugin::CheckInstallValidity\<close> is missing. It appends one
  error message for every
  requirement that is not installed and one for every incompatibility that is; it raises
  nothing. A plugin is installed when the registry has an entry of its name.
\<close>

definition is_installed :: "Game \<Rightarrow> string \<Rightarrow> bool" where
  "is_installed g n = list_ex (\<lambda>entry. iequals (fst entry) n) (plugins g)"

definition CheckInstallValidity :: "collaborators \<Rightarrow> Game \<Rightarrow> Plugin \<Rightarrow> Plugin" where
  "CheckInstallValidity c g p =
     p\<lparr>Messages := Messages p @
          map (\<lambda>r. Message error (MissingRequirementText c r))
            (filter (\<lambda>r. \<not> is_installed g r) (Reqs p)) @
          map (\<lambda>i. Message error (PresentIncompatibilityText c i))
            (filter (is_installed g) (Incs p))\<rparr>"

text \<open>
  Modelled from the spec: \<^verbatim>\<open>Game::LoadPlugins\<close> is missing. The bulk load
  \<^verbatim>\<open>LoadPlugins(false)\<close> fills the identifier sets of all plugins of the registry at
  once. It keeps the registry's entries and their
  order.
\<close>

definition LoadPlugins :: "collaborators \<Rightarrow> Game \<Rightarrow> Game" where
  "LoadPlugins c g =
     g\<lparr>plugins := map (\<lambda>entry. (fst entry, (snd entry)\<lparr>FormIDs := FormIDsOnDisk c (fst entry)\<rparr>))
                     (plugins g)\<rparr>"

text \<open>
  Modelled from the spec: \<^verbatim>\<open>Plugin::DoFormIDsOverlap\<close> is missing. Two plugins overlap
  when their identifier sets share at least one identifier.
\<close>

definition DoFormIDsOverlap :: "Plugin \<Rightarrow> Plugin \<Rightarrow> bool" where
  "DoFormIDsOverlap p q = (FormIDs p \<inter> FormIDs q \<noteq> {})"

subsection \<open>The query getConflictingPlugins (OnQuery, lines 184-208)\<close>

text \<open>
  \<^verbatim>\<open>plugins.begin()->second\<close> (line 193) reads through the registry's first iterator.
  In an empty registry that iterator is \<^verbatim>\<open>end()\<close> and reading through it has no
  defined behaviour: the model returns \<open>dereferenced_end\<close>. \<open>invalid_iterator\<close> stands
  for a read through \<^verbatim>\<open>pluginIt\<close> after its entry has left the registry.
\<close>

datatype query_failure = dereferenced_end | invalid_iterator

text \<open>
  The branch in the order of the source: \<^verbatim>\<open>pluginIt\<close> is looked up first (line 189);
  the identifier set of the first entry decides on the bulk load (lines 193-194); the
  presence test of line 197 is the one of the lookup made before the load, and the loop of
  lines 198-203 reads the target and the candidates from the registry as it is after the
  load. The result is the name list handed to \<^verbatim>\<open>callback->Success\<close> and the game
  state left behind.
\<close>

definition getConflictingPlugins ::
  "collaborators \<Rightarrow> string \<Rightarrow> Game \<Rightarrow> query_failure + (string list \<times> Game)" where
  "getConflictingPlugins c pluginName g =
     (let pluginIt = map_of (plugins g) pluginName in
      case plugins g of
        [] \<Rightarrow> Inl dereferenced_end
      | first # others \<Rightarrow>
          (let g' = (if FormIDs (snd first) = {} then LoadPlugins c g else g) in
           case pluginIt of
             None \<Rightarrow> Inr ([], g')
           | Some found \<Rightarrow>
               (case map_of (plugins g') pluginName of
                  None \<Rightarrow> Inl invalid_iterator
                | Some target \<Rightarrow>
                    Inr (map fst (filter (\<lambda>pluginPair. DoFormIDsOverlap target (snd pluginPair))
                                   (plugins g')), g'))))"

subsection \<open>GetGameData (lines 349-536)\<close>

text \<open>
  Modelled from the spec: the constant \<^verbatim>\<open>max_priority\<close> and the helper \<^verbatim>\<open>modulo\<close>
  are missing. The modulus of the priority encoding is the named constant
  \<open>MAX_PRIORITY\<close>, 100000, and \<open>modulo\<close> is the floored modulo, whose result for the
  modulus lies in \<open>[0, MAX_PRIORITY)\<close>. Both work on host-width signed integers.
\<close>

definition max_priority :: "32 word" where
  "max_priority = 100000"

definition modulo :: "32 word \<Rightarrow> 32 word \<Rightarrow> 32 word" where
  "modulo dividend divisor = word_of_int (sint dividend mod sint divisor)"

text \<open>
  \<^verbatim>\<open>abs\<close> of the C++ library on a host-width signed integer, as the handler calls it at
  lines 420, 441 and 502. The negation of the most negative value overflows; on the
  two's-complement host it wraps and gives back the most negative value. The handler
  compares the result with \<^verbatim>\<open>max_priority\<close> as signed integers.
\<close>

definition abs_int :: "32 word \<Rightarrow> 32 word" where
  "abs_int x = (if sint x < 0 then - x else x)"

text \<open>
  The two layer nodes \<^verbatim>\<open>pluginNode["masterlist"]\<close> (lines 419-426) and
  \<^verbatim>\<open>pluginNode["userlist"]\<close> (lines 439-447); only the second has \<open>enabled\<close>.
\<close>

record layer_node =
  layer_enabled :: "bool option"
  layer_modPriority :: "32 word"
  layer_isGlobalPriority :: bool
  layer_after :: "string list"
  layer_req :: "string list"
  layer_inc :: "string list"
  layer_msg :: "message list"
  layer_tag :: "Tag list"
  layer_dirty :: "PluginDirtyInfo list"

definition masterlist_node :: "Plugin \<Rightarrow> layer_node" where
  "masterlist_node mlistPlugin =
     \<lparr>layer_enabled = None,
      layer_modPriority = modulo (Priority mlistPlugin) max_priority,
      layer_isGlobalPriority = (sint (abs_int (Priority mlistPlugin)) \<ge> sint max_priority),
      layer_after = LoadAfter mlistPlugin,
      layer_req = Reqs mlistPlugin,
      layer_inc = Incs mlistPlugin,
      layer_msg = Messages mlistPlugin,
      layer_tag = Tags mlistPlugin,
      layer_dirty = DirtyInfo mlistPlugin\<rparr>"

definition userlist_node :: "Plugin \<Rightarrow> layer_node" where
  "userlist_node ulistPlugin =
     \<lparr>layer_enabled = Some (Enabled ulistPlugin),
      layer_modPriority = modulo (Priority ulistPlugin) max_priority,
      layer_isGlobalPriority = (sint (abs_int (Priority ulistPlugin)) \<ge> sint max_priority),
      layer_after = LoadAfter ulistPlugin,
      layer_req = Reqs ulistPlugin,
      layer_inc = Incs ulistPlugin,
      layer_msg = Messages ulistPlugin,
      layer_tag = Tags ulistPlugin,
      layer_dirty = DirtyInfo ulistPlugin\<rparr>"

text \<open>
  \<^verbatim>\<open>pluginNode\<close> (lines 403-410 and 501-505). The checksum is kept as the number that
  \<^verbatim>\<open>IntToHexString\<close> prints.
\<close>

record plugin_node =
  node_name :: string
  node_isActive :: bool
  node_isDummy :: bool
  node_loadsBSA :: bool
  node_crc :: "32 word"
  node_version :: string
  node_masterlist :: "layer_node option"
  node_userlist :: "layer_node option"
  node_modPriority :: "32 word"
  node_isGlobalPriority :: bool
  node_messages :: "message list"
  node_tags :: "Tag list"
  node_isDirty :: bool


text \<open>
  The calls that the loop body makes on its two copies of the plugin: each with the
  receiver as it is before the call (and the argument of a merge).
\<close>

datatype backend_call =
    Call_MergeMetadata Plugin Plugin
  | Call_Tags_clear Plugin
  | is_EvalAllConditions: Call_EvalAllConditions Plugin
  | Call_CheckInstallValidity Plugin

text \<open>
  The two copies of the live plugin, named for the statements below: \<^verbatim>\<open>mlistPlugin\<close>
  after line 415 and \<^verbatim>\<open>ulistPlugin\<close> after line 434 (copy, clear the tags, merge the
  userlist record).
\<close>

definition mlistPlugin_415 :: "Game \<Rightarrow> Plugin \<Rightarrow> Plugin" where
  "mlistPlugin_415 g plugin = MergeMetadata plugin (FindPlugin (masterlist g) (Name plugin))"

definition ulistPlugin_434 :: "Game \<Rightarrow> Plugin \<Rightarrow> Plugin" where
  "ulistPlugin_434 g plugin =
     MergeMetadata (plugin\<lparr>Tags := []\<rparr>) (FindPlugin (userlist g) (Name plugin))"

text \<open>
  \<^verbatim>\<open>mlistPlugin\<close> after line 453, where the userlist copy has been merged onto the
  masterlist copy; it is the record on which the conditions are evaluated.
\<close>

definition mlistPlugin_453 :: "Game \<Rightarrow> Plugin \<Rightarrow> Plugin" where
  "mlistPlugin_453 g plugin = MergeMetadata (mlistPlugin_415 g plugin) (ulistPlugin_434 g plugin)"

text \<open>
  The text of the message injected at line 462, with the plugin's name and the
  exception's detail substituted.
\<close>

definition condition_error_text :: "string \<Rightarrow> string \<Rightarrow> string" where
  "condition_error_text n what =
     [CHR 0x22] @ n @ [CHR 0x22] @
     '' contains a condition that could not be evaluated. Details: '' @ what"

text \<open>
  Every call that the loop body makes on one of its copies goes through one of the
  following four functions, which performs the call and appends it to the log of calls.
\<close>

definition logged_MergeMetadata ::
  "Plugin \<Rightarrow> Plugin \<Rightarrow> backend_call list \<Rightarrow> Plugin \<times> backend_call list" where
  "logged_MergeMetadata receiver other log =
     (MergeMetadata receiver other, log @ [Call_MergeMetadata receiver other])"

definition logged_Tags_clear :: "Plugin \<Rightarrow> backend_call list \<Rightarrow> Plugin \<times> backend_call list" where
  "logged_Tags_clear receiver log = (receiver\<lparr>Tags := []\<rparr>, log @ [Call_Tags_clear receiver])"

definition logged_EvalAllConditions ::
  "(string \<Rightarrow> string + bool) \<Rightarrow> Plugin \<Rightarrow> backend_call list \<Rightarrow>
   (Plugin \<times> string option) \<times> backend_call list" where
  "logged_EvalAllConditions ev receiver log =
     (EvalAllConditions ev receiver, log @ [Call_EvalAllConditions receiver])"

definition logged_CheckInstallValidity ::
  "collaborators \<Rightarrow> Game \<Rightarrow> Plugin \<Rightarrow> backend_call list \<Rightarrow> Plugin \<times> backend_call list" where
  "logged_CheckInstallValidity c g receiver log =
     (CheckInstallValidity c g receiver, log @ [Call_CheckInstallValidity receiver])"

text \<open>
  The body of the loop over the installed plugins, lines 399-512, statement by statement.
  The only part of the game that the body writes is \<^verbatim>\<open>masterlist.messages\<close>; it is
  passed in as \<open>global\<close> and returned. The log starts empty and is threaded through the
  calls. The result is the plugin's node, the global messages and the log.
\<close>

definition GetGameData_plugin ::
  "collaborators \<Rightarrow> Game \<Rightarrow> message list \<Rightarrow> Plugin \<Rightarrow>
   plugin_node \<times> message list \<times> backend_call list" where
  "GetGameData_plugin c g global plugin =
     (let mrecord = FindPlugin (masterlist g) (Name plugin);
          (mlistPlugin, log1) = logged_MergeMetadata plugin mrecord [];
          mnode = (if \<not> HasNameOnly mlistPlugin then Some (masterlist_node mlistPlugin) else None);
          (cleared, log2) = logged_Tags_clear plugin log1;
          urecord = FindPlugin (userlist g) (Name plugin);
          (ulistPlugin, log3) = logged_MergeMetadata cleared urecord log2;
          unode = (if \<not> HasNameOnly ulistPlugin then Some (userlist_node ulistPlugin) else None);
          (merged, log4) = logged_MergeMetadata mlistPlugin ulistPlugin log3;
          (evaluated, log5) = logged_EvalAllConditions (ConditionEvaluator c) merged log4;
          global' = (case snd evaluated of
                       None \<Rightarrow> global
                     | Some what \<Rightarrow>
                         global @ [Message error
                                     (condition_error_text (Name (fst evaluated)) what)]);
          (checked, log6) = logged_CheckInstallValidity c g (fst evaluated) log5;
          messages = Messages checked @
                     map (\<lambda>element. Message warn (dirty_text element)) (DirtyInfo checked);
          numDirtyInfo = length (DirtyInfo checked)
      in (\<lparr>node_name = Name plugin,
           node_isActive = IsActive c (Name plugin),
           node_isDummy = False,
           node_loadsBSA = LoadsBSA c plugin,
           node_crc = Crc plugin,
           node_version = Version plugin,
           node_masterlist = mnode,
           node_userlist = unode,
           node_modPriority = modulo (Priority checked) max_priority,
           node_isGlobalPriority = (sint (abs_int (Priority checked)) \<ge> sint max_priority),
           node_messages = messages,
           node_tags = Tags checked,
           node_isDirty = (numDirtyInfo > 0)\<rparr>,
          global',
          log6))"






subsection \<open>Example inputs\<close>

text \<open>
  A condition evaluator that knows two conditions and fails on every other one, and
  collaborators built around it.
\<close>

definition example_evaluator :: "string \<Rightarrow> string + bool" where
  "example_evaluator cnd =
     (if cnd = ''yes'' then Inr True else if cnd = ''no'' then Inr False else Inl ''syntax error'')"

definition example_collaborators :: collaborators where
  "example_collaborators =
     \<lparr>ConditionEvaluator = example_evaluator,
      IsActive = (\<lambda>n. True),
      LoadsBSA = (\<lambda>p. False),
      FormIDsOnDisk = (\<lambda>n. if n = ''c.esp'' then {} else {0xABC}),
      MissingRequirementText = (\<lambda>r. ''Requires '' @ r),
      PresentIncompatibilityText = (\<lambda>i. ''Incompatible with '' @ i)\<rparr>"

definition empty_list :: MetadataList where
  "empty_list = \<lparr>ml_plugins = [], ml_messages = []\<rparr>"

text \<open>
  A loaded registry in which \<open>a.esp\<close> and \<open>b.esp\<close> share the identifier \<open>0xABC\<close>
  and nothing else, and a registry whose first plugin has not been loaded.
\<close>

definition conflict_game :: Game where
  "conflict_game =
     \<lparr>FolderName = ''Skyrim'',
      plugins = [(''a.esp'', (Plugin_of_name ''a.esp'')\<lparr>FormIDs := {0xABC}\<rparr>),
                 (''b.esp'', (Plugin_of_name ''b.esp'')\<lparr>FormIDs := {0xABC}\<rparr>),
                 (''c.esp'', (Plugin_of_name ''c.esp'')\<lparr>FormIDs := {0x1}\<rparr>)],
      masterlist = empty_list, userlist = empty_list,
      loadOrder = [''a.esp'', ''b.esp'', ''c.esp'']\<rparr>"

definition unloaded_game :: Game where
  "unloaded_game =
     \<lparr>FolderName = ''Skyrim'',
      plugins = [(''a.esp'', Plugin_of_name ''a.esp''),
                 (''b.esp'', (Plugin_of_name ''b.esp'')\<lparr>FormIDs := {0x1}\<rparr>)],
      masterlist = empty_list, userlist = empty_list,
      loadOrder = [''a.esp'', ''b.esp'']\<rparr>"

text \<open>
  A game with two installed plugins. The file of \<open>a.esp\<close> suggests the tag \<open>Delev\<close>;
  its masterlist entry has priority 150000, a message whose condition is false, a message
  whose condition cannot be evaluated, a conditioned tag and a dirtiness record; its
  userlist entry adds the tag \<open>Names\<close>. The masterlist entry of \<open>b.esp\<close> is a single
  dirtiness record with all counts zero.
\<close>

definition live_tag :: Tag where
  "live_tag = \<lparr>tag_name = ''Delev'', tag_addition = True, tag_condition = None\<rparr>"

definition masterlist_tag :: Tag where
  "masterlist_tag = \<lparr>tag_name = ''Relev'', tag_addition = True, tag_condition = Some ''yes''\<rparr>"

definition user_tag :: Tag where
  "user_tag = \<lparr>tag_name = ''Names'', tag_addition = True, tag_condition = None\<rparr>"

definition false_message :: message where
  "false_message = \<lparr>msg_type = say, msg_content = ''Obsolete.'', msg_condition = Some ''no''\<rparr>"

definition failing_message :: message where
  "failing_message =
     \<lparr>msg_type = say, msg_content = ''Needs a patch.'', msg_condition = Some ''file(''\<rparr>"


definition example_plugin :: Plugin where
  "example_plugin = (Plugin_of_name ''a.esp'')\<lparr>Tags := [live_tag], FormIDs := {0xABC}\<rparr>"

definition zero_plugin :: Plugin where
  "zero_plugin = Plugin_of_name ''b.esp''"

definition example_masterlist :: MetadataList where
  "example_masterlist =
     \<lparr>ml_plugins =
        [(Plugin_of_name ''a.esp'')
           \<lparr>Priority := 150000, Messages := [false_message, failing_message],
            Tags := [masterlist_tag],
            DirtyInfo := [\<lparr>ITMs = 2, UDRs = 0, DeletedNavmeshes = 3, CleaningUtility = ''T''\<rparr>]\<rparr>,
         (Plugin_of_name ''b.esp'')
           \<lparr>DirtyInfo := [\<lparr>ITMs = 0, UDRs = 0, DeletedNavmeshes = 0, CleaningUtility = ''T''\<rparr>]\<rparr>],
      ml_messages = [failing_message, false_message]\<rparr>"

definition example_userlist :: MetadataList where
  "example_userlist =
     \<lparr>ml_plugins = [(Plugin_of_name ''a.esp'')\<lparr>Tags := [user_tag]\<rparr>], ml_messages = []\<rparr>"

definition example_game :: Game where
  "example_game =
     \<lparr>FolderName = ''Skyrim'',
      plugins = [(''a.esp'', example_plugin), (''b.esp'', zero_plugin)],
      masterlist = example_masterlist, userlist = example_userlist,
      loadOrder = [''a.esp'', ''b.esp'']\<rparr>"

text \<open>
  A game whose one plugin has, in the masterlist, the most negative priority that a
  host-width signed integer holds.
\<close>

definition most_negative_plugin :: Plugin where
  "most_negative_plugin = Plugin_of_name ''d.esp''"

definition most_negative_game :: Game where
  "most_negative_game =
     \<lparr>FolderName = ''Skyrim'',
      plugins = [(''d.esp'', most_negative_plugin)],
      masterlist = \<lparr>ml_plugins = [(Plugin_of_name ''d.esp'')\<lparr>Priority := - 2147483648\<rparr>],
                    ml_messages = []\<rparr>,
      userlist = empty_list,
      loadOrder = [''d.esp'']\<rparr>"

section \<open>Properties\<close>

subsection \<open>Decimal printing\<close>

lemma to_string_digit: "n < 10 \<Longrightarrow> to_string n = [digit_char n]"
  by (simp add: to_string.simps)

lemma to_string_2: "to_string 2 = ''2''"
  by (simp add: to_string.simps digit_char_def)

lemma to_string_3: "to_string 3 = ''3''"
  by (simp add: to_string.simps digit_char_def)

subsection \<open>The dirtiness formatter\<close>

lemma dirty_text_refines_table: "dirty_text d = spec_dirty_text d"
  by (cases "ITMs d = 0"; cases "UDRs d = 0"; cases "DeletedNavmeshes d = 0")
     (simp_all add: dirty_text_def spec_dirty_text_def)

text \<open>
  Claim C5. For every dirtiness record the formatter of the source yields the sentence
  that the eight-row table of the specification assigns to the pattern
  (itmCount > 0, udrCount > 0, deletedNavmeshCount > 0), with the counts and the tool name
  substituted. The record (itm = 2, udr = 0, nav = 3, tool = T) renders
  ``Contains 2 ITM records and 3 deleted navmeshes. Clean with T.'' and a record with all
  counts zero renders ``Clean with T.''.
\<close>

theorem C5_dirty_text_table:
  "dirty_text d = spec_dirty_text d \<and>
   dirty_text \<lparr>ITMs = 2, UDRs = 0, DeletedNavmeshes = 3, CleaningUtility = ''T''\<rparr> =
     ''Contains 2 ITM records and 3 deleted navmeshes. Clean with T.'' \<and>
   dirty_text \<lparr>ITMs = 0, UDRs = 0, DeletedNavmeshes = 0, CleaningUtility = ''T''\<rparr> =
     ''Clean with T.''"
proof -
  have table: "dirty_text d = spec_dirty_text d"
    by (rule dirty_text_refines_table)
  have mixed: "dirty_text \<lparr>ITMs = 2, UDRs = 0, DeletedNavmeshes = 3, CleaningUtility = ''T''\<rparr> =
      ''Contains 2 ITM records and 3 deleted navmeshes. Clean with T.''"
    by (simp add: dirty_text_def to_string_2 to_string_3)
  have clean: "dirty_text \<lparr>ITMs = 0, UDRs = 0, DeletedNavmeshes = 0, CleaningUtility = ''T''\<rparr> =
      ''Clean with T.''"
    by (simp add: dirty_text_def)
  from table mixed clean show ?thesis by simp
qed

subsection \<open>The query getConflictingPlugins\<close>

lemma map_of_LoadPlugins:
  "map_of (plugins (LoadPlugins c g)) n =
     map_option (\<lambda>p. p\<lparr>FormIDs := FormIDsOnDisk c n\<rparr>) (map_of (plugins g) n)"
proof -
  have "map_of (map (\<lambda>entry. (fst entry, (snd entry)\<lparr>FormIDs := FormIDsOnDisk c (fst entry)\<rparr>)) xs) n =
        map_option (\<lambda>p. p\<lparr>FormIDs := FormIDsOnDisk c n\<rparr>) (map_of xs n)"
    for xs :: "(string \<times> Plugin) list"
    by (induction xs) auto
  then show ?thesis by (simp add: LoadPlugins_def)
qed

lemma getConflictingPlugins_empty:
  "plugins g = [] \<Longrightarrow> getConflictingPlugins c n g = Inl dereferenced_end"
  by (simp add: getConflictingPlugins_def)

lemma getConflictingPlugins_absent:
  "plugins g = first # others \<Longrightarrow> map_of (plugins g) n = None \<Longrightarrow>
   getConflictingPlugins c n g = Inr ([], if FormIDs (snd first) = {} then LoadPlugins c g else g)"
  by (simp add: getConflictingPlugins_def Let_def)

lemma getConflictingPlugins_present:
  assumes "plugins g = first # others" and "map_of (plugins g) n = Some found"
  shows "\<exists>target. map_of (plugins (if FormIDs (snd first) = {} then LoadPlugins c g else g)) n = Some target \<and>
     getConflictingPlugins c n g =
       Inr (map fst (filter (\<lambda>entry. FormIDs target \<inter> FormIDs (snd entry) \<noteq> {})
              (plugins (if FormIDs (snd first) = {} then LoadPlugins c g else g))),
            if FormIDs (snd first) = {} then LoadPlugins c g else g)"
  using assms
  by (auto simp add: getConflictingPlugins_def Let_def map_of_LoadPlugins DoFormIDsOverlap_def)

lemma target_in_own_conflicts:
  assumes "map_of reg n = Some target"
  shows "n \<in> set (map fst (filter (\<lambda>entry. FormIDs target \<inter> FormIDs (snd entry) \<noteq> {}) reg))
         \<longleftrightarrow> FormIDs target \<noteq> {}"
proof
  assume "n \<in> set (map fst (filter (\<lambda>entry. FormIDs target \<inter> FormIDs (snd entry) \<noteq> {}) reg))"
  then show "FormIDs target \<noteq> {}" by auto
next
  assume ne: "FormIDs target \<noteq> {}"
  from assms have "(n, target) \<in> set reg" by (rule map_of_SomeD)
  with ne show "n \<in> set (map fst (filter (\<lambda>entry. FormIDs target \<inter> FormIDs (snd entry) \<noteq> {}) reg))"
    by force
qed

text \<open>
  Claim C4, as the source has it. For a queried plugin that the registry knows, the query
  returns, in registry order, exactly the names of the registry's entries whose
  identifier set shares at least one identifier with the target's, read from the registry
  as it is after the bulk load that the first entry may have triggered. The loop of lines
  198-203 runs over all entries and does not skip the target, so the queried plugin is in
  its own result exactly when its identifier set is not empty.
\<close>

theorem C4_conflicts_are_overlapping_entries:
  assumes "plugins g = first # others"
    and "map_of (plugins g) pluginName = Some found"
    and "g' = (if FormIDs (snd first) = {} then LoadPlugins c g else g)"
  shows "\<exists>target names.
           map_of (plugins g') pluginName = Some target \<and>
           names = map fst (filter (\<lambda>entry. FormIDs target \<inter> FormIDs (snd entry) \<noteq> {}) (plugins g')) \<and>
           getConflictingPlugins c pluginName g = Inr (names, g') \<and>
           (pluginName \<in> set names \<longleftrightarrow> FormIDs target \<noteq> {})"
proof -
  from getConflictingPlugins_present [OF assms(1) assms(2), of c] assms(3)
  obtain target where t: "map_of (plugins g') pluginName = Some target"
    and q: "getConflictingPlugins c pluginName g =
       Inr (map fst (filter (\<lambda>entry. FormIDs target \<inter> FormIDs (snd entry) \<noteq> {}) (plugins g')), g')"
    by auto
  from target_in_own_conflicts [OF t] t q show ?thesis by blast
qed

text \<open>
  In the loaded example registry the query for \<open>b.esp\<close> lists \<open>a.esp\<close>, which shares
  its one identifier, and \<open>b.esp\<close> itself, and leaves out \<open>c.esp\<close>.
\<close>

theorem C4_witness:
  "\<exists>target. map_of (plugins conflict_game) ''b.esp'' = Some target \<and>
     FormIDs target = {0xABC} \<and>
     getConflictingPlugins example_collaborators ''b.esp'' conflict_game =
       Inr ([''a.esp'', ''b.esp''], conflict_game)"
proof -
  have reg: "plugins conflict_game =
      (''a.esp'', (Plugin_of_name ''a.esp'')\<lparr>FormIDs := {0xABC}\<rparr>) #
      [(''b.esp'', (Plugin_of_name ''b.esp'')\<lparr>FormIDs := {0xABC}\<rparr>),
       (''c.esp'', (Plugin_of_name ''c.esp'')\<lparr>FormIDs := {0x1}\<rparr>)]"
    by (simp add: conflict_game_def)
  have found: "map_of (plugins conflict_game) ''b.esp'' =
      Some ((Plugin_of_name ''b.esp'')\<lparr>FormIDs := {0xABC}\<rparr>)"
    by (simp add: conflict_game_def)
  have same: "conflict_game =
      (if FormIDs (snd (''a.esp'', (Plugin_of_name ''a.esp'')\<lparr>FormIDs := {0xABC}\<rparr>)) = {}
       then LoadPlugins example_collaborators conflict_game else conflict_game)"
    by simp
  from C4_conflicts_are_overlapping_entries [OF reg found same]
  show ?thesis
    by (simp add: conflict_game_def Plugin_of_name_def)
qed

text \<open>
  Claim C4 as stated fails: in a loaded registry where \<open>a.esp\<close> and \<open>b.esp\<close> share the
  identifier \<open>0xABC\<close>, the result of the query for \<open>a.esp\<close> lists \<open>a.esp\<close> itself.
\<close>

theorem C4_counterexample:
  "getConflictingPlugins example_collaborators ''a.esp'' conflict_game =
     Inr ([''a.esp'', ''b.esp''], conflict_game)"
  by (simp add: getConflictingPlugins_def conflict_game_def DoFormIDsOverlap_def Plugin_of_name_def)

text \<open>
  Claim C9 at an empty registry. The claim promises an empty name list for every name
  that the registry does not know. With no plugin in the registry every name is unknown,
  and line 193 reads through \<^verbatim>\<open>plugins.begin()\<close>, which is \<^verbatim>\<open>end()\<close>, before the result
  of the lookup is looked at: the query has no defined result.
\<close>

theorem C9_empty_registry:
  "map_of (plugins (g\<lparr>plugins := []\<rparr>)) pluginName = None \<and>
   getConflictingPlugins c pluginName (g\<lparr>plugins := []\<rparr>) = Inl dereferenced_end"
  by (simp add: getConflictingPlugins_def)

text \<open>
  Claim C10. The query reads the identifier set of the registry's first entry without
  testing that there is one: on an empty registry the read has no defined result. When the
  registry holds at least one plugin the query returns a name list, whatever name is
  asked for, and the bulk load is run exactly when the identifier set of the first entry
  is empty; the queried plugin has no part in that decision.
\<close>

theorem C10_trigger_reads_first_entry:
  "(plugins g = [] \<longrightarrow> getConflictingPlugins c pluginName g = Inl dereferenced_end) \<and>
   (\<forall>first others. plugins g = first # others \<longrightarrow>
      (\<exists>names. getConflictingPlugins c pluginName g =
         Inr (names, if FormIDs (snd first) = {} then LoadPlugins c g else g)))"
proof (intro conjI allI impI)
  assume "plugins g = []"
  then show "getConflictingPlugins c pluginName g = Inl dereferenced_end"
    by (rule getConflictingPlugins_empty)
next
  fix first others
  assume reg: "plugins g = first # others"
  show "\<exists>names. getConflictingPlugins c pluginName g =
         Inr (names, if FormIDs (snd first) = {} then LoadPlugins c g else g)"
  proof (cases "map_of (plugins g) pluginName")
    case None
    with reg show ?thesis by (simp add: getConflictingPlugins_absent)
  next
    case (Some found)
    from getConflictingPlugins_present [OF reg Some, of c] show ?thesis by blast
  qed
qed

text \<open>
  In a registry whose first plugin \<open>a.esp\<close> has no identifiers in memory, the query
  for the loaded plugin \<open>b.esp\<close> runs the bulk load.
\<close>

theorem C10_witness:
  "plugins unloaded_game =
     [(''a.esp'', Plugin_of_name ''a.esp''), (''b.esp'', (Plugin_of_name ''b.esp'')\<lparr>FormIDs := {0x1}\<rparr>)] \<and>
   FormIDs (Plugin_of_name ''a.esp'') = {} \<and>
   (\<exists>names. getConflictingPlugins example_collaborators ''b.esp'' unloaded_game =
      Inr (names, LoadPlugins example_collaborators unloaded_game))"
proof -
  have reg: "plugins unloaded_game =
      (''a.esp'', Plugin_of_name ''a.esp'') #
      [(''b.esp'', (Plugin_of_name ''b.esp'')\<lparr>FormIDs := {0x1}\<rparr>)]"
    by (simp add: unloaded_game_def)
  have unloaded: "FormIDs (Plugin_of_name ''a.esp'') = {}"
    by (simp add: Plugin_of_name_def)
  from C10_trigger_reads_first_entry [of unloaded_game example_collaborators "''b.esp''"] reg
  have "\<exists>names. getConflictingPlugins example_collaborators ''b.esp'' unloaded_game =
      Inr (names, if FormIDs (snd (''a.esp'', Plugin_of_name ''a.esp'')) = {}
                  then LoadPlugins example_collaborators unloaded_game else unloaded_game)"
    by blast
  with reg unloaded show ?thesis by simp
qed

subsection \<open>The sets of the metadata records\<close>

lemma set_insert_set: "set (set_insert key x xs) = insert x (set xs)"
  by (auto simp add: set_insert_def set_insort_key)

lemma set_merge_set: "set (set_merge key receiver other) = set receiver \<union> set other"
  unfolding set_merge_def
  by (induction receiver arbitrary: other) (auto simp add: set_insert_set)

lemma set_insert_sorted: "sorted (map key xs) \<Longrightarrow> sorted (map key (set_insert key x xs))"
  by (simp add: set_insert_def sorted_insort_key)

lemma set_merge_sorted:
  "sorted (map key other) \<Longrightarrow> sorted (map key (set_merge key receiver other))"
  unfolding set_merge_def
  by (induction receiver arbitrary: other) (auto simp add: set_insert_sorted)

lemma set_insert_distinct: "distinct xs \<Longrightarrow> distinct (set_insert key x xs)"
  by (simp add: set_insert_def distinct_insort)

lemma set_merge_distinct: "distinct other \<Longrightarrow> distinct (set_merge key receiver other)"
  unfolding set_merge_def
  by (induction receiver arbitrary: other) (auto simp add: set_insert_distinct)

lemma set_merge_Nil: "set_merge key [] other = other"
  by (simp add: set_merge_def)

subsection \<open>The erase loop and the backend members\<close>


lemma erase_false_subset: "set (fst (erase_false evalc xs)) \<subseteq> set xs"
  by (induction xs) (auto split: sum.splits prod.splits)



lemma erase_false_thrown:
  "snd (erase_false evalc xs) = Some what \<Longrightarrow> \<exists>x\<in>set xs. evalc x = Inl what"
  by (induction xs) (auto split: sum.splits prod.splits if_splits)



lemma EvalAllConditions_frame:
  "Name (fst (EvalAllConditions ev p)) = Name p"
  "Priority (fst (EvalAllConditions ev p)) = Priority p"
  "DirtyInfo (fst (EvalAllConditions ev p)) = DirtyInfo p"
  by (auto simp add: EvalAllConditions_def split: prod.splits option.splits)



lemma CheckInstallValidity_frame:
  "Name (CheckInstallValidity c g p) = Name p"
  "Priority (CheckInstallValidity c g p) = Priority p"
  "Tags (CheckInstallValidity c g p) = Tags p"
  "DirtyInfo (CheckInstallValidity c g p) = DirtyInfo p"
  "set (Messages p) \<subseteq> set (Messages (CheckInstallValidity c g p))"
  by (auto simp add: CheckInstallValidity_def)

lemma MergeMetadata_Name: "Name (MergeMetadata base other) = Name base"
  by (simp add: MergeMetadata_def)

lemma mlistPlugin_453_Name: "Name (mlistPlugin_453 g plugin) = Name plugin"
  by (simp add: mlistPlugin_453_def mlistPlugin_415_def MergeMetadata_Name)

lemmas logged_defs =
  logged_MergeMetadata_def logged_Tags_clear_def logged_EvalAllConditions_def
  logged_CheckInstallValidity_def

lemma GetGameData_plugin_node:
  "fst (GetGameData_plugin c g global plugin) =
     (let evaluated = EvalAllConditions (ConditionEvaluator c) (mlistPlugin_453 g plugin);
          checked = CheckInstallValidity c g (fst evaluated)
      in \<lparr>node_name = Name plugin,
          node_isActive = IsActive c (Name plugin),
          node_isDummy = False,
          node_loadsBSA = LoadsBSA c plugin,
          node_crc = Crc plugin,
          node_version = Version plugin,
          node_masterlist = (if HasNameOnly (mlistPlugin_415 g plugin) then None
                             else Some (masterlist_node (mlistPlugin_415 g plugin))),
          node_userlist = (if HasNameOnly (ulistPlugin_434 g plugin) then None
                           else Some (userlist_node (ulistPlugin_434 g plugin))),
          node_modPriority = modulo (Priority checked) max_priority,
          node_isGlobalPriority = (sint (abs_int (Priority checked)) \<ge> sint max_priority),
          node_messages = Messages checked @
                     map (\<lambda>element. Message warn (dirty_text element)) (DirtyInfo checked),
          node_tags = Tags checked,
          node_isDirty = (DirtyInfo checked \<noteq> [])\<rparr>)"
  by (simp add: GetGameData_plugin_def logged_defs Let_def mlistPlugin_453_def
      mlistPlugin_415_def ulistPlugin_434_def)

lemma GetGameData_plugin_global:
  "fst (snd (GetGameData_plugin c g global plugin)) =
     (case snd (EvalAllConditions (ConditionEvaluator c) (mlistPlugin_453 g plugin)) of
        None \<Rightarrow> global
      | Some what \<Rightarrow> global @ [Message error (condition_error_text (Name plugin) what)])"
  by (simp add: GetGameData_plugin_def logged_defs Let_def mlistPlugin_453_def mlistPlugin_415_def
      ulistPlugin_434_def EvalAllConditions_frame MergeMetadata_Name split: option.splits)

lemma GetGameData_plugin_calls:
  "snd (snd (GetGameData_plugin c g global plugin)) =
     [Call_MergeMetadata plugin (FindPlugin (masterlist g) (Name plugin)),
      Call_Tags_clear plugin,
      Call_MergeMetadata (plugin\<lparr>Tags := []\<rparr>) (FindPlugin (userlist g) (Name plugin)),
      Call_MergeMetadata (mlistPlugin_415 g plugin) (ulistPlugin_434 g plugin),
      Call_EvalAllConditions (mlistPlugin_453 g plugin),
      Call_CheckInstallValidity
        (fst (EvalAllConditions (ConditionEvaluator c) (mlistPlugin_453 g plugin)))]"
  by (simp add: GetGameData_plugin_def logged_defs Let_def mlistPlugin_453_def
      mlistPlugin_415_def ulistPlugin_434_def)











subsection \<open>The priority encoding\<close>

lemma max_priority_value: "sint max_priority = 100000"
  by (simp add: max_priority_def)

lemma modulo_max_priority: "sint (modulo r max_priority) = sint r mod 100000"
proof -
  have lo: "- (2 ^ (LENGTH(32) - Suc 0)) \<le> sint r mod 100000"
    by (rule order_trans [of _ 0]) simp_all
  have "sint r mod 100000 < 100000" by simp
  then have hi: "sint r mod 100000 < 2 ^ (LENGTH(32) - Suc 0)" by simp
  have "sint (word_of_int (sint r mod 100000) :: 32 word) = sint r mod 100000"
    unfolding sint_sbintrunc' using lo hi
    by (intro signed_take_bit_int_eq_self) simp_all
  then show ?thesis by (simp add: modulo_def max_priority_def)
qed

lemma modulo_in_range:
  "0 \<le> sint (modulo r max_priority)" "sint (modulo r max_priority) < sint max_priority"
  by (simp_all add: modulo_max_priority max_priority_value)

lemma abs_int_sint:
  assumes "r \<noteq> (- 2147483648 :: 32 word)"
  shows "sint (abs_int r) = \<bar>sint r\<bar>"
proof (cases "sint r < 0")
  case False
  then show ?thesis by (simp add: abs_int_def)
next
  case True
  have "sint r \<noteq> - 2147483648"
  proof
    assume "sint r = - 2147483648"
    then have "sint r = sint (- 2147483648 :: 32 word)" by simp
    then have "r = - 2147483648" by (simp only: signed_word_eqI)
    with assms show False by simp
  qed
  moreover have "- 2147483648 \<le> sint r" using sint_ge [of r] by simp
  ultimately have lo: "- 2147483648 < sint r" by simp
  have "sint (- r) = signed_take_bit (LENGTH(32) - Suc 0) (- sint r)"
    by (simp add: sint_word_ariths)
  also have "\<dots> = - sint r"
    using lo True by (intro signed_take_bit_int_eq_self) simp_all
  finally show ?thesis using True by (simp add: abs_int_def)
qed

lemma abs_int_most_negative: "abs_int (- 2147483648) = - 2147483648"
  by (simp add: abs_int_def)

lemma priority_examples:
  "modulo (- 1) max_priority = 99999"
  "modulo 150000 max_priority = 50000"
  "sint max_priority \<le> sint (abs_int 150000)"
  by (simp_all add: modulo_def max_priority_def abs_int_def)

lemma GetGameData_plugin_priority:
  "node_modPriority (fst (GetGameData_plugin c g global plugin)) =
     modulo (Priority (mlistPlugin_453 g plugin)) max_priority"
  "node_isGlobalPriority (fst (GetGameData_plugin c g global plugin)) =
     (sint max_priority \<le> sint (abs_int (Priority (mlistPlugin_453 g plugin))))"
  by (simp_all add: GetGameData_plugin_node Let_def CheckInstallValidity_frame
      EvalAllConditions_frame)

lemma priority_encoding_in_range:
  "0 \<le> sint (node_modPriority (fst (GetGameData_plugin c g global plugin)))"
  "sint (node_modPriority (fst (GetGameData_plugin c g global plugin))) < 100000"
  "sint (node_modPriority (fst (GetGameData_plugin c g global plugin))) =
     sint (Priority (mlistPlugin_453 g plugin)) mod 100000"
  by (simp_all add: GetGameData_plugin_priority modulo_max_priority)

lemma priority_encoding_global:
  assumes "Priority (mlistPlugin_453 g plugin) \<noteq> - 2147483648"
  shows "node_isGlobalPriority (fst (GetGameData_plugin c g global plugin)) =
     (\<bar>sint (Priority (mlistPlugin_453 g plugin))\<bar> \<ge> 100000)"
  by (simp add: GetGameData_plugin_priority abs_int_sint [OF assms] max_priority_value)

subsection \<open>The example games\<close>

lemma iequals_refl: "iequals s s"
  by (simp add: iequals_def)

lemma iequals_a_b: "\<not> iequals ''a.esp'' ''b.esp''"
  by code_simp

lemma example_names:
  "Name example_plugin = ''a.esp''" "Name zero_plugin = ''b.esp''"
  "Name most_negative_plugin = ''d.esp''"
  by (simp_all add: example_plugin_def zero_plugin_def most_negative_plugin_def Plugin_of_name_def)

lemma example_records:
  "FindPlugin (masterlist example_game) ''a.esp'' =
     (Plugin_of_name ''a.esp'')
           \<lparr>Priority := 150000, Messages := [false_message, failing_message],
            Tags := [masterlist_tag],
            DirtyInfo := [\<lparr>ITMs = 2, UDRs = 0, DeletedNavmeshes = 3, CleaningUtility = ''T''\<rparr>]\<rparr>"
  "FindPlugin (userlist example_game) ''a.esp'' = (Plugin_of_name ''a.esp'')\<lparr>Tags := [user_tag]\<rparr>"
  "FindPlugin (masterlist example_game) ''b.esp'' =
     (Plugin_of_name ''b.esp'')
           \<lparr>DirtyInfo := [\<lparr>ITMs = 0, UDRs = 0, DeletedNavmeshes = 0, CleaningUtility = ''T''\<rparr>]\<rparr>"
  "FindPlugin (userlist example_game) ''b.esp'' = Plugin_of_name ''b.esp''"
  by (simp_all add: FindPlugin_def example_game_def example_masterlist_def example_userlist_def
      Plugin_of_name_def iequals_refl iequals_a_b)

lemma most_negative_records:
  "FindPlugin (masterlist most_negative_game) ''d.esp'' =
     (Plugin_of_name ''d.esp'')\<lparr>Priority := - 2147483648\<rparr>"
  "FindPlugin (userlist most_negative_game) ''d.esp'' = Plugin_of_name ''d.esp''"
  by (simp_all add: FindPlugin_def most_negative_game_def empty_list_def
      Plugin_of_name_def iequals_refl)

lemma example_tag_merges:
  "set_merge Tag_key [live_tag] [masterlist_tag] = [live_tag, masterlist_tag]"
  "set_merge Tag_key [live_tag, masterlist_tag] [user_tag] = [live_tag, user_tag, masterlist_tag]"
  by (simp_all add: set_merge_def set_insert_def Tag_key_def live_tag_def masterlist_tag_def
      user_tag_def)

lemma example_mlistPlugin_415:
  "mlistPlugin_415 example_game example_plugin =
     (Plugin_of_name ''a.esp'')
       \<lparr>Priority := 150000, Messages := [false_message, failing_message],
        Tags := [live_tag, masterlist_tag],
        DirtyInfo := [\<lparr>ITMs = 2, UDRs = 0, DeletedNavmeshes = 3, CleaningUtility = ''T''\<rparr>],
        FormIDs := {0xABC}\<rparr>"
  apply (simp add: mlistPlugin_415_def example_names example_records)
  apply (simp add: MergeMetadata_def example_plugin_def Plugin_of_name_def set_merge_Nil
      example_tag_merges)
  done

lemma example_ulistPlugin_434:
  "ulistPlugin_434 example_game example_plugin =
     (Plugin_of_name ''a.esp'')\<lparr>Tags := [user_tag], FormIDs := {0xABC}\<rparr>"
  apply (simp add: ulistPlugin_434_def example_names example_records)
  apply (simp add: MergeMetadata_def example_plugin_def Plugin_of_name_def set_merge_Nil)
  done

lemma example_merged:
  "mlistPlugin_453 example_game example_plugin =
     (Plugin_of_name ''a.esp'')
       \<lparr>Priority := 150000, Messages := [false_message, failing_message],
        Tags := [live_tag, user_tag, masterlist_tag],
        DirtyInfo := [\<lparr>ITMs = 2, UDRs = 0, DeletedNavmeshes = 3, CleaningUtility = ''T''\<rparr>],
        FormIDs := {0xABC}\<rparr>"
  apply (simp add: mlistPlugin_453_def example_mlistPlugin_415 example_ulistPlugin_434)
  apply (simp add: MergeMetadata_def Plugin_of_name_def set_merge_Nil example_tag_merges)
  apply (simp add: set_merge_def set_insert_def)
  done


lemma example_evaluated:
  "EvalAllConditions example_evaluator (mlistPlugin_453 example_game example_plugin) =
     ((mlistPlugin_453 example_game example_plugin)\<lparr>Messages := [failing_message]\<rparr>,
      Some ''syntax error'')"
  by (simp add: example_merged EvalAllConditions_def Message_EvalCondition_def
      false_message_def failing_message_def example_evaluator_def Plugin_of_name_def)

lemma example_zero_merged:
  "mlistPlugin_453 example_game zero_plugin =
     (Plugin_of_name ''b.esp'')
       \<lparr>DirtyInfo := [\<lparr>ITMs = 0, UDRs = 0, DeletedNavmeshes = 0, CleaningUtility = ''T''\<rparr>]\<rparr>"
  apply (simp add: mlistPlugin_453_def mlistPlugin_415_def ulistPlugin_434_def example_names
      example_records)
  apply (simp add: MergeMetadata_def zero_plugin_def Plugin_of_name_def set_merge_def
      set_insert_def)
  done

lemma example_zero_evaluated:
  "EvalAllConditions ev (mlistPlugin_453 example_game zero_plugin) =
     (mlistPlugin_453 example_game zero_plugin, None)"
  by (simp add: example_zero_merged EvalAllConditions_def Plugin_of_name_def)

lemma example_zero_checked:
  "Messages (CheckInstallValidity c g (mlistPlugin_453 example_game zero_plugin)) = []"
  by (simp add: example_zero_merged CheckInstallValidity_def Plugin_of_name_def)

lemma most_negative_merged:
  "Priority (mlistPlugin_453 most_negative_game most_negative_plugin) = - 2147483648"
  apply (simp add: mlistPlugin_453_def mlistPlugin_415_def ulistPlugin_434_def example_names
      most_negative_records)
  apply (simp add: MergeMetadata_def most_negative_plugin_def Plugin_of_name_def)
  done

subsection \<open>The loop body of GetGameData\<close>

text \<open>
  Claim C1, as the source has it. For every plugin the loop body makes its backend calls
  in one fixed order: merge of the masterlist record, clearing of the tags of the second
  copy, merge of the userlist record, merge of the userlist copy onto the masterlist copy,
  \<^verbatim>\<open>EvalAllConditions\<close>, \<^verbatim>\<open>CheckInstallValidity\<close>. The conditions are evaluated once
  per plugin, on the record that already holds both layers, and the install check follows
  the evaluation. The masterlist layer node and the userlist layer node are written from
  the two unevaluated copies, so their messages are those of the plugin and of the layer's
  record, unfiltered. The tags and the messages of the resolved node are those left by
  that one evaluation, and the one evaluation injects at most one error into the global
  messages.
\<close>

theorem C1_single_evaluation_after_merges:
  "snd (snd (GetGameData_plugin c g global plugin)) =
     [Call_MergeMetadata plugin (FindPlugin (masterlist g) (Name plugin)),
      Call_Tags_clear plugin,
      Call_MergeMetadata (plugin\<lparr>Tags := []\<rparr>) (FindPlugin (userlist g) (Name plugin)),
      Call_MergeMetadata (mlistPlugin_415 g plugin) (ulistPlugin_434 g plugin),
      Call_EvalAllConditions (mlistPlugin_453 g plugin),
      Call_CheckInstallValidity
        (fst (EvalAllConditions (ConditionEvaluator c) (mlistPlugin_453 g plugin)))] \<and>
   filter is_EvalAllConditions (snd (snd (GetGameData_plugin c g global plugin))) =
     [Call_EvalAllConditions (mlistPlugin_453 g plugin)] \<and>
   mlistPlugin_453 g plugin =
     MergeMetadata (MergeMetadata plugin (FindPlugin (masterlist g) (Name plugin)))
       (MergeMetadata (plugin\<lparr>Tags := []\<rparr>) (FindPlugin (userlist g) (Name plugin))) \<and>
   node_masterlist (fst (GetGameData_plugin c g global plugin)) =
     (if HasNameOnly (mlistPlugin_415 g plugin) then None
      else Some (masterlist_node (mlistPlugin_415 g plugin))) \<and>
   node_userlist (fst (GetGameData_plugin c g global plugin)) =
     (if HasNameOnly (ulistPlugin_434 g plugin) then None
      else Some (userlist_node (ulistPlugin_434 g plugin))) \<and>
   layer_msg (masterlist_node (mlistPlugin_415 g plugin)) =
     Messages plugin @ Messages (FindPlugin (masterlist g) (Name plugin)) \<and>
   layer_msg (userlist_node (ulistPlugin_434 g plugin)) =
     Messages plugin @ Messages (FindPlugin (userlist g) (Name plugin)) \<and>
   node_tags (fst (GetGameData_plugin c g global plugin)) =
     Tags (fst (EvalAllConditions (ConditionEvaluator c) (mlistPlugin_453 g plugin))) \<and>
   node_messages (fst (GetGameData_plugin c g global plugin)) =
     Messages (CheckInstallValidity c g
       (fst (EvalAllConditions (ConditionEvaluator c) (mlistPlugin_453 g plugin)))) @
     map (\<lambda>element. Message warn (dirty_text element)) (DirtyInfo (mlistPlugin_453 g plugin)) \<and>
   fst (snd (GetGameData_plugin c g global plugin)) =
     (case snd (EvalAllConditions (ConditionEvaluator c) (mlistPlugin_453 g plugin)) of
        None \<Rightarrow> global
      | Some what \<Rightarrow> global @ [Message error (condition_error_text (Name plugin) what)])"
proof -
  have calls: "snd (snd (GetGameData_plugin c g global plugin)) =
     [Call_MergeMetadata plugin (FindPlugin (masterlist g) (Name plugin)),
      Call_Tags_clear plugin,
      Call_MergeMetadata (plugin\<lparr>Tags := []\<rparr>) (FindPlugin (userlist g) (Name plugin)),
      Call_MergeMetadata (mlistPlugin_415 g plugin) (ulistPlugin_434 g plugin),
      Call_EvalAllConditions (mlistPlugin_453 g plugin),
      Call_CheckInstallValidity
        (fst (EvalAllConditions (ConditionEvaluator c) (mlistPlugin_453 g plugin)))]"
    by (rule GetGameData_plugin_calls)
  have once: "filter is_EvalAllConditions (snd (snd (GetGameData_plugin c g global plugin))) =
     [Call_EvalAllConditions (mlistPlugin_453 g plugin)]"
    by (simp add: calls)
  have merged: "mlistPlugin_453 g plugin =
     MergeMetadata (MergeMetadata plugin (FindPlugin (masterlist g) (Name plugin)))
       (MergeMetadata (plugin\<lparr>Tags := []\<rparr>) (FindPlugin (userlist g) (Name plugin)))"
    by (simp add: mlistPlugin_453_def mlistPlugin_415_def ulistPlugin_434_def)
  have mview: "node_masterlist (fst (GetGameData_plugin c g global plugin)) =
     (if HasNameOnly (mlistPlugin_415 g plugin) then None
      else Some (masterlist_node (mlistPlugin_415 g plugin)))"
    by (simp add: GetGameData_plugin_node Let_def)
  have uview: "node_userlist (fst (GetGameData_plugin c g global plugin)) =
     (if HasNameOnly (ulistPlugin_434 g plugin) then None
      else Some (userlist_node (ulistPlugin_434 g plugin)))"
    by (simp add: GetGameData_plugin_node Let_def)
  have mmsg: "layer_msg (masterlist_node (mlistPlugin_415 g plugin)) =
     Messages plugin @ Messages (FindPlugin (masterlist g) (Name plugin))"
    by (simp add: masterlist_node_def mlistPlugin_415_def MergeMetadata_def)
  have umsg: "layer_msg (userlist_node (ulistPlugin_434 g plugin)) =
     Messages plugin @ Messages (FindPlugin (userlist g) (Name plugin))"
    by (simp add: userlist_node_def ulistPlugin_434_def MergeMetadata_def)
  have tags: "node_tags (fst (GetGameData_plugin c g global plugin)) =
     Tags (fst (EvalAllConditions (ConditionEvaluator c) (mlistPlugin_453 g plugin)))"
    by (simp add: GetGameData_plugin_node Let_def CheckInstallValidity_frame)
  have msgs: "node_messages (fst (GetGameData_plugin c g global plugin)) =
     Messages (CheckInstallValidity c g
       (fst (EvalAllConditions (ConditionEvaluator c) (mlistPlugin_453 g plugin)))) @
     map (\<lambda>element. Message warn (dirty_text element)) (DirtyInfo (mlistPlugin_453 g plugin))"
    by (simp add: GetGameData_plugin_node Let_def CheckInstallValidity_frame
        EvalAllConditions_frame)
  have injected: "fst (snd (GetGameData_plugin c g global plugin)) =
     (case snd (EvalAllConditions (ConditionEvaluator c) (mlistPlugin_453 g plugin)) of
        None \<Rightarrow> global
      | Some what \<Rightarrow> global @ [Message error (condition_error_text (Name plugin) what)])"
    by (rule GetGameData_plugin_global)
  from calls once merged mview uview mmsg umsg tags msgs injected show ?thesis
    by (intro conjI)
qed

text \<open>
  Claim C1 as stated fails: it has the conditions evaluated twice per plugin, once before
  the userlist record is merged. For \<open>a.esp\<close> of the example game the loop body calls
  \<^verbatim>\<open>EvalAllConditions\<close> once, and not among its first four calls, which are the three
  merges and the clearing of the tags. The evaluation fails there, and one error is
  injected, not two; the masterlist layer node still holds the message whose condition is
  false.
\<close>

theorem C1_counterexample:
  "length (filter is_EvalAllConditions
     (snd (snd (GetGameData_plugin example_collaborators example_game [] example_plugin)))) = 1 \<and>
   filter is_EvalAllConditions
     (take 4 (snd (snd (GetGameData_plugin example_collaborators example_game [] example_plugin)))) = [] \<and>
   fst (snd (GetGameData_plugin example_collaborators example_game [] example_plugin)) =
     [Message error (condition_error_text ''a.esp'' ''syntax error'')] \<and>
   map_option layer_msg
     (node_masterlist (fst (GetGameData_plugin example_collaborators example_game [] example_plugin))) =
     Some [false_message, failing_message]"
proof -
  have ev: "ConditionEvaluator example_collaborators = example_evaluator"
    by (simp add: example_collaborators_def)
  have calls: "length (filter is_EvalAllConditions
     (snd (snd (GetGameData_plugin example_collaborators example_game [] example_plugin)))) = 1"
    "filter is_EvalAllConditions
     (take 4 (snd (snd (GetGameData_plugin example_collaborators example_game [] example_plugin)))) = []"
    by (simp_all add: GetGameData_plugin_calls)
  have injected: "fst (snd (GetGameData_plugin example_collaborators example_game [] example_plugin)) =
     [Message error (condition_error_text ''a.esp'' ''syntax error'')]"
    by (simp add: GetGameData_plugin_global ev example_evaluated example_names)
  have view: "map_option layer_msg
     (node_masterlist (fst (GetGameData_plugin example_collaborators example_game [] example_plugin))) =
     Some [false_message, failing_message]"
    by (simp add: GetGameData_plugin_node Let_def example_mlistPlugin_415 HasNameOnly_def
        masterlist_node_def Plugin_of_name_def)
  from calls injected view show ?thesis by (intro conjI)
qed

text \<open>
  For \<open>a.esp\<close> of the example game the single evaluation receives the record with the
  tags of the plugin file, of the masterlist and of the userlist.
\<close>

theorem C1_witness:
  "filter is_EvalAllConditions
     (snd (snd (GetGameData_plugin example_collaborators example_game [] example_plugin))) =
   [Call_EvalAllConditions
      ((Plugin_of_name ''a.esp'')
       \<lparr>Priority := 150000, Messages := [false_message, failing_message],
        Tags := [live_tag, user_tag, masterlist_tag],
        DirtyInfo := [\<lparr>ITMs = 2, UDRs = 0, DeletedNavmeshes = 3, CleaningUtility = ''T''\<rparr>],
        FormIDs := {0xABC}\<rparr>)]"
  using C1_single_evaluation_after_merges [of example_collaborators example_game "[]" example_plugin]
  by (simp add: example_merged)

text \<open>
  Claim C3 at the most negative priority. The claim has \<open>isGlobalPriority\<close> equal to
  \<open>abs(r) >= MAX_PRIORITY\<close> for every signed raw priority. For a masterlist entry with
  the priority \<open>-2147483648\<close> the absolute value is far above \<open>MAX_PRIORITY\<close>, but
  \<^verbatim>\<open>abs\<close> overflows at line 502 and the node is not marked global. For every other
  priority the flag is as the claim says (lemma \<open>priority_encoding_global\<close>), and
  \<open>modPriority\<close> is the floored modulo in \<open>[0, MAX_PRIORITY)\<close> for every priority
  (lemma \<open>priority_encoding_in_range\<close>).
\<close>

theorem C3_most_negative_priority:
  "Priority (FindPlugin (masterlist most_negative_game) (Name most_negative_plugin)) = - 2147483648 \<and>
   \<bar>sint (- 2147483648 :: 32 word)\<bar> \<ge> 100000 \<and>
   sint max_priority = 100000 \<and>
   node_isGlobalPriority
     (fst (GetGameData_plugin example_collaborators most_negative_game [] most_negative_plugin)) = False"
  by (simp add: example_names most_negative_records GetGameData_plugin_priority
      most_negative_merged abs_int_most_negative max_priority_def)

text \<open>
  Claim C6. For every plugin the messages of the resolved node are the messages of the
  resolved record followed by one warning per dirtiness record of that record, with the
  formatted text, in the order of the records; \<open>isDirty\<close> is true exactly when the
  record has a dirtiness record, whatever the counts are; and the dirtiness records of the
  resolved record are those of the merged record.
\<close>

theorem C6_dirty_messages_and_flag:
  "node_messages (fst (GetGameData_plugin c g global plugin)) =
     Messages (CheckInstallValidity c g
       (fst (EvalAllConditions (ConditionEvaluator c) (mlistPlugin_453 g plugin)))) @
     map (\<lambda>element. Message warn (dirty_text element))
       (DirtyInfo (CheckInstallValidity c g
          (fst (EvalAllConditions (ConditionEvaluator c) (mlistPlugin_453 g plugin))))) \<and>
   node_isDirty (fst (GetGameData_plugin c g global plugin)) =
     (DirtyInfo (CheckInstallValidity c g
        (fst (EvalAllConditions (ConditionEvaluator c) (mlistPlugin_453 g plugin)))) \<noteq> []) \<and>
   DirtyInfo (CheckInstallValidity c g
     (fst (EvalAllConditions (ConditionEvaluator c) (mlistPlugin_453 g plugin)))) =
     DirtyInfo (mlistPlugin_453 g plugin)"
proof -
  have loop: "node_messages (fst (GetGameData_plugin c g global plugin)) =
     Messages (CheckInstallValidity c g
       (fst (EvalAllConditions (ConditionEvaluator c) (mlistPlugin_453 g plugin)))) @
     map (\<lambda>element. Message warn (dirty_text element))
       (DirtyInfo (CheckInstallValidity c g
          (fst (EvalAllConditions (ConditionEvaluator c) (mlistPlugin_453 g plugin)))))"
    by (simp add: GetGameData_plugin_node Let_def)
  have flag: "node_isDirty (fst (GetGameData_plugin c g global plugin)) =
     (DirtyInfo (CheckInstallValidity c g
        (fst (EvalAllConditions (ConditionEvaluator c) (mlistPlugin_453 g plugin)))) \<noteq> [])"
    by (simp add: GetGameData_plugin_node Let_def)
  have merged: "DirtyInfo (CheckInstallValidity c g
     (fst (EvalAllConditions (ConditionEvaluator c) (mlistPlugin_453 g plugin)))) =
     DirtyInfo (mlistPlugin_453 g plugin)"
    by (simp add: CheckInstallValidity_frame EvalAllConditions_frame)
  from loop flag merged show ?thesis by blast
qed


text \<open>
  The plugin \<open>b.esp\<close> of the example game has one dirtiness record with all counts zero:
  its node carries the warning ``Clean with T.'' and is dirty.
\<close>

theorem C6_witness:
  "DirtyInfo (mlistPlugin_453 example_game zero_plugin) =
     [\<lparr>ITMs = 0, UDRs = 0, DeletedNavmeshes = 0, CleaningUtility = ''T''\<rparr>] \<and>
   node_messages (fst (GetGameData_plugin example_collaborators example_game [] zero_plugin)) =
     [\<lparr>msg_type = warn, msg_content = ''Clean with T.'', msg_condition = None\<rparr>] \<and>
   node_isDirty (fst (GetGameData_plugin example_collaborators example_game [] zero_plugin))"
proof -
  have d: "DirtyInfo (mlistPlugin_453 example_game zero_plugin) =
     [\<lparr>ITMs = 0, UDRs = 0, DeletedNavmeshes = 0, CleaningUtility = ''T''\<rparr>]"
    by (simp add: example_zero_merged Plugin_of_name_def)
  from C6_dirty_messages_and_flag [of example_collaborators example_game "[]" zero_plugin] d
  show ?thesis
    by (simp add: example_zero_evaluated example_zero_checked Message_def dirty_text_def)
qed




subsection \<open>The userlist layer\<close>

text \<open>
  Claim C8. For every plugin the second call of the loop body clears the tags of the
  userlist copy and the third merges the userlist record onto that cleared copy; the tags
  of the copy after the merge, and with them the \<open>tag\<close> field of the userlist layer
  node whenever that node is written, are the tags of the userlist record alone.
\<close>

theorem C8_userlist_tags_only:
  "snd (snd (GetGameData_plugin c g global plugin)) ! 1 = Call_Tags_clear plugin \<and>
   snd (snd (GetGameData_plugin c g global plugin)) ! 2 =
     Call_MergeMetadata (plugin\<lparr>Tags := []\<rparr>) (FindPlugin (userlist g) (Name plugin)) \<and>
   ulistPlugin_434 g plugin =
     MergeMetadata (plugin\<lparr>Tags := []\<rparr>) (FindPlugin (userlist g) (Name plugin)) \<and>
   Tags (ulistPlugin_434 g plugin) = Tags (FindPlugin (userlist g) (Name plugin)) \<and>
   node_userlist (fst (GetGameData_plugin c g global plugin)) =
     (if HasNameOnly (ulistPlugin_434 g plugin) then None
      else Some (userlist_node (ulistPlugin_434 g plugin))) \<and>
   layer_tag (userlist_node (ulistPlugin_434 g plugin)) =
     Tags (FindPlugin (userlist g) (Name plugin))"
proof -
  have calls: "snd (snd (GetGameData_plugin c g global plugin)) ! 1 = Call_Tags_clear plugin"
    "snd (snd (GetGameData_plugin c g global plugin)) ! 2 =
     Call_MergeMetadata (plugin\<lparr>Tags := []\<rparr>) (FindPlugin (userlist g) (Name plugin))"
    by (simp_all add: GetGameData_plugin_calls)
  have copy: "ulistPlugin_434 g plugin =
     MergeMetadata (plugin\<lparr>Tags := []\<rparr>) (FindPlugin (userlist g) (Name plugin))"
    by (simp add: ulistPlugin_434_def)
  have tags: "Tags (ulistPlugin_434 g plugin) = Tags (FindPlugin (userlist g) (Name plugin))"
    by (simp add: ulistPlugin_434_def MergeMetadata_def set_merge_Nil)
  have view: "node_userlist (fst (GetGameData_plugin c g global plugin)) =
     (if HasNameOnly (ulistPlugin_434 g plugin) then None
      else Some (userlist_node (ulistPlugin_434 g plugin)))"
    by (simp add: GetGameData_plugin_node Let_def)
  have field: "layer_tag (userlist_node (ulistPlugin_434 g plugin)) =
     Tags (FindPlugin (userlist g) (Name plugin))"
    by (simp add: userlist_node_def tags)
  from calls copy tags view field show ?thesis by blast
qed


text \<open>
  For \<open>a.esp\<close> of the example game the plugin file suggests \<open>Delev\<close> and the
  masterlist copy holds \<open>Delev\<close> and \<open>Relev\<close>, while the userlist layer node holds
  only \<open>Names\<close>, the tag of the userlist entry.
\<close>

theorem C8_witness:
  "Tags example_plugin = [live_tag] \<and>
   Tags (mlistPlugin_415 example_game example_plugin) = [live_tag, masterlist_tag] \<and>
   map_option layer_tag
     (node_userlist (fst (GetGameData_plugin example_collaborators example_game [] example_plugin))) =
     Some [user_tag]"
proof -
  have live: "Tags example_plugin = [live_tag]"
    by (simp add: example_plugin_def)
  have m: "Tags (mlistPlugin_415 example_game example_plugin) = [live_tag, masterlist_tag]"
    by (simp add: example_mlistPlugin_415)
  have u: "Tags (FindPlugin (userlist example_game) (Name example_plugin)) = [user_tag]"
    by (simp add: example_names example_records)
  note userlist_layer =
    C8_userlist_tags_only [of example_collaborators example_game "[]" example_plugin]
  from userlist_layer
  have t: "Tags (ulistPlugin_434 example_game example_plugin) =
      Tags (FindPlugin (userlist example_game) (Name example_plugin))"
    by blast
  from t u have "Tags (ulistPlugin_434 example_game example_plugin) \<noteq> []" by simp
  then have n: "\<not> HasNameOnly (ulistPlugin_434 example_game example_plugin)"
    by (simp add: HasNameOnly_def)
  from userlist_layer
  have v: "node_userlist (fst (GetGameData_plugin example_collaborators example_game [] example_plugin)) =
     (if HasNameOnly (ulistPlugin_434 example_game example_plugin) then None
      else Some (userlist_node (ulistPlugin_434 example_game example_plugin)))"
    by blast
  from userlist_layer
  have f: "layer_tag (userlist_node (ulistPlugin_434 example_game example_plugin)) =
     Tags (FindPlugin (userlist example_game) (Name example_plugin))"
    by blast
  from live m u n v f show ?thesis by simp
qed


subsection \<open>The global messages\<close>


text \<open>
  Claim C7 as stated fails: a failure at one global message ends the filtering. With a
  message whose condition cannot be evaluated in front of it, a message whose condition is
  false is still in the list after the pass.
\<close>


text \<open>
  Both cases on example messages: without a failure the false message is removed; with a
  failure in the middle only the messages in front of it are filtered.
\<close>


end
